theory Spec2Isabelle
  imports Main "HOL-Library.Word" "HOL-Library.AList"
begin

unbundle bit_operations_syntax

section \<open>The NETCONF agent (server/src/agent.c)\<close>

text \<open>
  The agent is one C file. Everything it calls lives outside it: the protocol library
  (libnetconf: sessions, requests, replies, errors), libxml2, the backend channel
  (\<open>comm_*\<close>, declared in comm.h) and the operating system (\<open>poll\<close>, \<open>malloc\<close>,
  \<open>pthread_create\<close>, signals). What those calls return is an input of the model; what the
  agent does with the results is translated function by function.
\<close>

subsection \<open>Constants of the C library and of the platform headers\<close>

definition EXIT_SUCCESS :: int where "EXIT_SUCCESS = 0"
definition EXIT_FAILURE :: int where "EXIT_FAILURE = 1"
definition EINTR :: int where "EINTR = 4"

definition SIGHUP :: int where "SIGHUP = 1"
definition SIGINT :: int where "SIGINT = 2"
definition SIGQUIT :: int where "SIGQUIT = 3"
definition SIGABRT :: int where "SIGABRT = 6"
definition SIGKILL :: int where "SIGKILL = 9"
definition SIGTERM :: int where "SIGTERM = 15"
definition SIGCHLD :: int where "SIGCHLD = 17"
definition SIGCONT :: int where "SIGCONT = 18"
definition SIGSTOP :: int where "SIGSTOP = 19"
definition SIGTSTP :: int where "SIGTSTP = 20"
definition SIGTTIN :: int where "SIGTTIN = 21"
definition SIGTTOU :: int where "SIGTTOU = 22"
definition SIGURG :: int where "SIGURG = 23"
definition SIGWINCH :: int where "SIGWINCH = 28"

text \<open>\<open>revents\<close> of \<open>struct pollfd\<close> is a \<open>short\<close> used as a bit mask.\<close>

definition POLLIN :: "16 word" where "POLLIN = 0x001"
definition POLLERR :: "16 word" where "POLLERR = 0x008"
definition POLLHUP :: "16 word" where "POLLHUP = 0x010"

subsection \<open>Data of the protocol library, as far as the agent looks at it\<close>

datatype NC_VERB_LEVEL = NC_VERB_ERROR | NC_VERB_WARNING | NC_VERB_VERBOSE | NC_VERB_DEBUG

datatype NC_OP =
    NC_OP_UNKNOWN | NC_OP_GETCONFIG | NC_OP_GET | NC_OP_EDITCONFIG
  | NC_OP_CLOSESESSION | NC_OP_KILLSESSION | NC_OP_COPYCONFIG | NC_OP_DELETECONFIG
  | NC_OP_LOCK | NC_OP_UNLOCK | NC_OP_COMMIT | NC_OP_DISCARDCHANGES
  | NC_OP_CREATESUBSCRIPTION | NC_OP_GETSCHEMA | NC_OP_VALIDATE

datatype NC_ERR =
    NC_ERR_EMPTY | NC_ERR_IN_USE | NC_ERR_INVALID_VALUE | NC_ERR_MISSING_ELEM
  | NC_ERR_BAD_ELEM | NC_ERR_ACCESS_DENIED | NC_ERR_OP_NOT_SUPPORTED | NC_ERR_OP_FAILED

datatype NC_ERR_PARAM =
    NC_ERR_PARAM_TYPE | NC_ERR_PARAM_TAG | NC_ERR_PARAM_SEVERITY | NC_ERR_PARAM_APPTAG
  | NC_ERR_PARAM_PATH | NC_ERR_PARAM_MSG | NC_ERR_PARAM_INFO_BADATTR
  | NC_ERR_PARAM_INFO_BADELEM | NC_ERR_PARAM_INFO_BADNS | NC_ERR_PARAM_INFO_SID

text \<open>
  An error structure: the category it was created with and the parameters the agent set
  on it afterwards with \<open>nc_err_set\<close> (a later value of a parameter replaces the earlier
  one). The defaults that the library fills in for a category are not part of the model.
\<close>

record nc_err =
  err_category :: NC_ERR
  err_params :: "(NC_ERR_PARAM \<times> string) list"

definition nc_err_new :: "NC_ERR \<Rightarrow> nc_err" where
  "nc_err_new e = \<lparr>err_category = e, err_params = []\<rparr>"

definition nc_err_set :: "nc_err \<Rightarrow> NC_ERR_PARAM \<Rightarrow> string \<Rightarrow> nc_err" where
  "nc_err_set err p v = err\<lparr>err_params := AList.update p v (err_params err)\<rparr>"

definition nc_err_get :: "nc_err \<Rightarrow> NC_ERR_PARAM \<Rightarrow> string option" where
  "nc_err_get err p = map_of (err_params err) p"

datatype NC_REPLY_TYPE =
  NC_REPLY_UNKNOWN | NC_REPLY_HELLO | NC_REPLY_OK | NC_REPLY_ERROR | NC_REPLY_DATA

text \<open>A reply: success, a structured failure, or data produced by the backend.\<close>

datatype nc_reply = Reply_Ok | Reply_Error nc_err | Reply_Data string

fun nc_reply_get_type :: "nc_reply \<Rightarrow> NC_REPLY_TYPE" where
  "nc_reply_get_type Reply_Ok = NC_REPLY_OK"
| "nc_reply_get_type (Reply_Error e) = NC_REPLY_ERROR"
| "nc_reply_get_type (Reply_Data d) = NC_REPLY_DATA"

text \<open>
  An XML node as libxml2 shows it to the agent: \<open>name\<close> (may be NULL), the list that
  starts at \<open>children\<close>, and the text that \<open>xmlNodeGetContent\<close> returns for it.
\<close>

datatype xmlNode = XmlNode (node_name: "string option") (node_children: "xmlNode list")
  (node_content: string)

text \<open>\<open>xmlStrEqual\<close>: 1 when both strings are equal, 0 otherwise, also for NULL against a string.\<close>

definition xmlStrEqual :: "string option \<Rightarrow> string \<Rightarrow> int" where
  "xmlStrEqual s t = (if s = Some t then 1 else 0)"

definition xmlNodeGetContent :: "xmlNode \<Rightarrow> string" where
  "xmlNodeGetContent n = node_content n"

text \<open>
  A request: the operation kind that \<open>nc_rpc_get_op\<close> reports and the operation element
  that \<open>ncxml_rpc_get_op_content\<close> returns (NULL when there is none).
\<close>

record nc_rpc =
  rpc_op :: NC_OP
  rpc_op_content :: "xmlNode option"

definition nc_rpc_get_op :: "nc_rpc \<Rightarrow> NC_OP" where
  "nc_rpc_get_op rpc = rpc_op rpc"

definition ncxml_rpc_get_op_content :: "nc_rpc \<Rightarrow> xmlNode option" where
  "ncxml_rpc_get_op_content rpc = rpc_op_content rpc"

datatype NC_SESSION_STATUS =
    NC_SESSION_STATUS_ERROR | NC_SESSION_STATUS_STARTUP | NC_SESSION_STATUS_WORKING
  | NC_SESSION_STATUS_CLOSING | NC_SESSION_STATUS_CLOSED | NC_SESSION_STATUS_DUMMY

text \<open>
  A session: the capabilities negotiated at accept time and whether the library
  currently allows a new notification subscription on it.
\<close>

record nc_session =
  session_cpblts :: "string list"
  session_notif_allowed :: bool

definition nc_cpblts_enabled :: "nc_session \<Rightarrow> string \<Rightarrow> int" where
  "nc_cpblts_enabled session uri = (if uri \<in> set (session_cpblts session) then 1 else 0)"

definition nc_session_notif_allowed :: "nc_session \<Rightarrow> int" where
  "nc_session_notif_allowed session = (if session_notif_allowed session then 1 else 0)"

subsection \<open>The state the agent acts on\<close>

type_synonym handle = nat

text \<open>Objects on the C heap that the agent allocates, receives or has to release.\<close>

datatype obj =
    Obj_reply nc_reply
  | Obj_rpc nc_rpc
  | Obj_ntf_thread_config "handle option"
  | Obj_string string

text \<open>What the agent does to the outside world, in order.\<close>

datatype event =
    Ev_log NC_VERB_LEVEL string
  | Ev_stderr_signal int
  | Ev_comm_close
  | Ev_comm_kill_session string
  | Ev_comm_operation nc_rpc
  | Ev_send_reply handle nc_reply
  | Ev_free handle
  | Ev_pthread_create handle
  | Ev_pthread_detach
  | Ev_ncntf_dispatch_send handle
  | Ev_nc_session_free
  | Ev_nc_close

text \<open>
  \<open>done_flag\<close> is the global \<open>volatile int done\<close>. \<open>heap\<close> holds the live objects,
  \<open>next_handle\<close> is the next fresh address, \<open>trace\<close> the events so far.
\<close>

record agent_state =
  done_flag :: int
  next_handle :: handle
  heap :: "(handle \<times> obj) list"
  trace :: "event list"

definition emit :: "event \<Rightarrow> agent_state \<Rightarrow> agent_state" where
  "emit e st = st\<lparr>trace := trace st @ [e]\<rparr>"

definition alloc :: "obj \<Rightarrow> agent_state \<Rightarrow> handle \<times> agent_state" where
  "alloc ob st =
     (next_handle st,
      st\<lparr>next_handle := Suc (next_handle st), heap := heap st @ [(next_handle st, ob)]\<rparr>)"

text \<open>\<open>free\<close>, \<open>nc_reply_free\<close> and \<open>nc_rpc_free\<close>: the object is gone from the heap.\<close>

definition release :: "handle \<Rightarrow> agent_state \<Rightarrow> agent_state" where
  "release h st = emit (Ev_free h) (st\<lparr>heap := AList.delete h (heap st)\<rparr>)"

text \<open>The replies passed to \<open>nc_session_send_reply\<close>, in order.\<close>

fun sends :: "event list \<Rightarrow> (handle \<times> nc_reply) list" where
  "sends [] = []"
| "sends (Ev_send_reply h r # es) = (h, r) # sends es"
| "sends (e # es) = sends es"

text \<open>
  What the backend channel and the system answer while one request is processed:
  the result of \<open>comm_close\<close>, the replies of \<open>comm_kill_session\<close>, \<open>comm_operation\<close> and
  \<open>ncntf_subscription_check\<close>, whether \<open>malloc\<close> succeeds, and what \<open>pthread_create\<close>
  returns.
\<close>

record conn_t =
  comm_close_res :: int
  comm_kill_session_res :: "string \<Rightarrow> nc_reply"
  comm_operation_res :: "nc_rpc \<Rightarrow> nc_reply"
  ncntf_subscription_check_res :: "nc_rpc \<Rightarrow> nc_reply"
  malloc_ok :: bool
  pthread_create_res :: int

subsection \<open>\<open>notification_thread\<close>\<close>

text \<open>
  The body of the detached task: it streams the notifications, then releases the
  duplicated request and its own configuration.
\<close>

definition notification_thread :: "handle \<Rightarrow> agent_state \<Rightarrow> agent_state" where
  "notification_thread arg st =
     (case map_of (heap st) arg of
        Some (Obj_ntf_thread_config (Some subscribe_rpc)) \<Rightarrow>
          release arg (release subscribe_rpc (emit (Ev_ncntf_dispatch_send subscribe_rpc) st))
      | _ \<Rightarrow> st)"

subsection \<open>\<open>signal_handler\<close>\<close>

text \<open>
  The handler either returns, with the flag possibly set, or ends the process with
  \<open>exit\<close>: \<open>Inl status\<close> is the process exit, \<open>Inr st\<close> the state on return.
\<close>

definition signal_handler :: "int \<Rightarrow> agent_state \<Rightarrow> (int \<times> agent_state) + agent_state" where
  "signal_handler sig st =
     (let st1 = emit (Ev_stderr_signal sig) (emit (Ev_log NC_VERB_VERBOSE ''Signal received.'') st)
      in if sig = SIGINT \<or> sig = SIGTERM \<or> sig = SIGQUIT \<or> sig = SIGABRT \<or> sig = SIGKILL
         then (if done_flag st1 = 0
               then Inr (st1\<lparr>done_flag := 1\<rparr>)
               else Inl (EXIT_FAILURE,
                      emit (Ev_log NC_VERB_ERROR
                        ''Hey! I need some time to stop, be patient next time!'') st1))
         else Inl (EXIT_FAILURE, emit (Ev_log NC_VERB_ERROR ''exiting on signal.'') st1))"

subsection \<open>\<open>process_message\<close>\<close>

text \<open>\<open>nc_reply_ok\<close>, \<open>nc_reply_error\<close> and the backend calls hand the agent a new reply object.\<close>

definition new_reply :: "nc_reply \<Rightarrow> agent_state \<Rightarrow> (handle \<times> nc_reply) \<times> agent_state" where
  "new_reply r st = (case alloc (Obj_reply r) st of (h, st1) \<Rightarrow> ((h, r), st1))"

definition nc_reply_ok :: "agent_state \<Rightarrow> (handle \<times> nc_reply) \<times> agent_state" where
  "nc_reply_ok st = new_reply Reply_Ok st"

definition nc_reply_error :: "nc_err \<Rightarrow> agent_state \<Rightarrow> (handle \<times> nc_reply) \<times> agent_state" where
  "nc_reply_error err st = new_reply (Reply_Error err) st"

text \<open>The label \<open>send_reply\<close>: send the reply, release it, return success.\<close>

definition send_reply :: "handle \<times> nc_reply \<Rightarrow> agent_state \<Rightarrow> int \<times> agent_state" where
  "send_reply reply st =
     (EXIT_SUCCESS, release (fst reply) (emit (Ev_send_reply (fst reply) (snd reply)) st))"

text \<open>\<open>case NC_OP_CLOSESESSION\<close>\<close>

definition op_closesession :: "conn_t \<Rightarrow> agent_state \<Rightarrow> (handle \<times> nc_reply) \<times> agent_state" where
  "op_closesession conn st =
     (case (if comm_close_res conn \<noteq> EXIT_SUCCESS
            then nc_reply_error (nc_err_new NC_ERR_OP_FAILED) (emit Ev_comm_close st)
            else nc_reply_ok (emit Ev_comm_close st)) of
        (reply, st1) \<Rightarrow> (reply, st1\<lparr>done_flag := 1\<rparr>))"

text \<open>\<open>case NC_OP_KILLSESSION\<close>\<close>

definition op_killsession ::
  "conn_t \<Rightarrow> nc_rpc \<Rightarrow> agent_state \<Rightarrow> (handle \<times> nc_reply) \<times> agent_state" where
  "op_killsession conn rpc st =
     (case ncxml_rpc_get_op_content rpc of
        None \<Rightarrow>
          nc_reply_error (nc_err_new NC_ERR_OP_FAILED)
            (emit (Ev_log NC_VERB_ERROR ''Corrupted RPC message.'') st)
      | Some op \<Rightarrow>
          if node_name op = None \<or> xmlStrEqual (node_name op) ''kill-session'' = 0
          then nc_reply_error (nc_err_new NC_ERR_OP_FAILED)
                 (emit (Ev_log NC_VERB_ERROR ''Corrupted RPC message.'') st)
          else (case node_children op of
                  [] \<Rightarrow>
                    nc_reply_error
                      (nc_err_set (nc_err_new NC_ERR_MISSING_ELEM)
                         NC_ERR_PARAM_INFO_BADELEM ''session-id'')
                      (emit (Ev_log NC_VERB_ERROR ''No session id found.'') st)
                | child # siblings \<Rightarrow>
                    if xmlStrEqual (node_name child) ''session-id'' = 0
                    then nc_reply_error
                           (nc_err_set (nc_err_new NC_ERR_MISSING_ELEM)
                              NC_ERR_PARAM_INFO_BADELEM ''session-id'')
                           (emit (Ev_log NC_VERB_ERROR ''No session id found.'') st)
                    else (case alloc (Obj_string (xmlNodeGetContent child)) st of
                            (sid, st1) \<Rightarrow>
                              (case new_reply
                                      (comm_kill_session_res conn (xmlNodeGetContent child))
                                      (emit (Ev_comm_kill_session (xmlNodeGetContent child)) st1) of
                                 (reply, st2) \<Rightarrow> (reply, release sid st2)))))"

text \<open>\<open>case NC_OP_CREATESUBSCRIPTION\<close>\<close>

definition op_createsubscription ::
  "nc_session \<Rightarrow> conn_t \<Rightarrow> nc_rpc \<Rightarrow> agent_state \<Rightarrow> (handle \<times> nc_reply) \<times> agent_state" where
  "op_createsubscription session conn rpc st =
     (if nc_cpblts_enabled session ''urn:ietf:params:netconf:capability:notification:1.0'' = 0
      then nc_reply_error (nc_err_new NC_ERR_OP_NOT_SUPPORTED) st
      else if nc_session_notif_allowed session = 0
      then nc_reply_error
             (nc_err_set
                (nc_err_set (nc_err_new NC_ERR_OP_FAILED) NC_ERR_PARAM_TYPE ''protocol'')
                NC_ERR_PARAM_MSG
                ''Another notification subscription is currently active on this session.'')
             (emit (Ev_log NC_VERB_ERROR
                ''Notification subscription is not allowed on this session.'') st)
      else (case new_reply (ncntf_subscription_check_res conn rpc) st of
              (reply, st1) \<Rightarrow>
                if nc_reply_get_type (snd reply) \<noteq> NC_REPLY_OK then (reply, st1)
                else if \<not> malloc_ok conn
                then nc_reply_error
                       (nc_err_set (nc_err_new NC_ERR_OP_FAILED)
                          NC_ERR_PARAM_MSG ''Memory allocation failed.'')
                       (emit (Ev_log NC_VERB_ERROR ''Memory allocation failed.'') st1)
                else (case alloc (Obj_ntf_thread_config None) st1 of
                        (ntf_config, st2) \<Rightarrow>
                          (case alloc (Obj_rpc rpc) st2 of
                             (subscribe_rpc, st3) \<Rightarrow>
                               (let st4 = st3\<lparr>heap := AList.update ntf_config
                                            (Obj_ntf_thread_config (Some subscribe_rpc))
                                            (heap st3)\<rparr>
                                in if pthread_create_res conn \<noteq> 0
                                   then nc_reply_error
                                          (nc_err_set (nc_err_new NC_ERR_OP_FAILED)
                                             NC_ERR_PARAM_MSG
                                             ''Creating thread for sending Notifications failed.'')
                                          (release (fst reply) st4)
                                   else (reply,
                                         emit Ev_pthread_detach
                                           (emit (Ev_pthread_create ntf_config) st4)))))))"

text \<open>\<open>default\<close>\<close>

definition op_other :: "conn_t \<Rightarrow> nc_rpc \<Rightarrow> agent_state \<Rightarrow> (handle \<times> nc_reply) \<times> agent_state" where
  "op_other conn rpc st = new_reply (comm_operation_res conn rpc) (emit (Ev_comm_operation rpc) st)"

text \<open>
  The whole function. A NULL request (\<open>None\<close>) returns failure at once. Every \<open>break\<close> and
  every \<open>goto send_reply\<close> of the switch arrives at the label \<open>send_reply\<close> with the
  variable \<open>reply\<close> set.
\<close>

definition process_message ::
  "nc_session \<Rightarrow> conn_t \<Rightarrow> nc_rpc option \<Rightarrow> agent_state \<Rightarrow> int \<times> agent_state" where
  "process_message session conn rpc_arg st =
     (case rpc_arg of
        None \<Rightarrow> (EXIT_FAILURE, emit (Ev_log NC_VERB_ERROR ''Invalid RPC to process.'') st)
      | Some rpc \<Rightarrow>
          (case (case nc_rpc_get_op rpc of
                   NC_OP_CLOSESESSION \<Rightarrow> op_closesession conn st
                 | NC_OP_KILLSESSION \<Rightarrow> op_killsession conn rpc st
                 | NC_OP_CREATESUBSCRIPTION \<Rightarrow> op_createsubscription session conn rpc st
                 | _ \<Rightarrow> op_other conn rpc st) of
             (reply, st1) \<Rightarrow> send_reply reply st1))"

subsection \<open>Signals while the agent runs\<close>

text \<open>
  \<open>main\<close> starts with five calls of \<open>sigaction\<close> (lines 302-306). The handler is
  installed for SIGINT, SIGQUIT, SIGABRT and SIGTERM. The call for SIGKILL fails:
  SIGKILL cannot be caught. From then on to the end of the process, a signal with the
  handler installed runs \<open>signal_handler\<close>; all signals are blocked while it runs
  (\<open>sigfillset\<close>), so handlers run one after the other.
\<close>

definition handler_installed :: "int \<Rightarrow> bool" where
  "handler_installed sig \<longleftrightarrow> sig = SIGINT \<or> sig = SIGQUIT \<or> sig = SIGABRT \<or> sig = SIGTERM"

text \<open>
  Any other signal has the default disposition of the platform: it is ignored, it
  suspends the process until it is continued (no effect on what the agent does), or it
  terminates the process, which then has no exit status of its own.
\<close>

datatype disposition = Disp_terminate | Disp_ignore | Disp_stop

definition default_disposition :: "int \<Rightarrow> disposition" where
  "default_disposition sig =
     (if sig = SIGCHLD \<or> sig = SIGCONT \<or> sig = SIGURG \<or> sig = SIGWINCH then Disp_ignore
      else if sig = SIGSTOP \<or> sig = SIGTSTP \<or> sig = SIGTTIN \<or> sig = SIGTTOU then Disp_stop
      else Disp_terminate)"

text \<open>How a process ends outside \<open>main\<close>: \<open>exit\<close> in the handler, or killed by a signal.\<close>

datatype stop = Stop_exit int | Stop_killed int

text \<open>
  The signals that arrive during one stretch of the run, in order. \<open>Inl\<close> is the end of
  the process, \<open>Inr\<close> the state with which the agent goes on.
\<close>

fun deliver :: "int list \<Rightarrow> agent_state \<Rightarrow> (stop \<times> agent_state) + agent_state" where
  "deliver [] st = Inr st"
| "deliver (sig # sigs) st =
     (if handler_installed sig
      then (case signal_handler sig st of
              Inl (status, st1) \<Rightarrow> Inl (Stop_exit status, st1)
            | Inr st1 \<Rightarrow> deliver sigs st1)
      else (case default_disposition sig of
              Disp_terminate \<Rightarrow> Inl (Stop_killed sig, st)
            | Disp_ignore \<Rightarrow> deliver sigs st
            | Disp_stop \<Rightarrow> deliver sigs st))"

subsection \<open>\<open>main\<close>: start-up, the session loop, cleanup\<close>

datatype NC_MSG_TYPE =
    NC_MSG_UNKNOWN | NC_MSG_WOULDBLOCK | NC_MSG_NONE | NC_MSG_HELLO | NC_MSG_RPC
  | NC_MSG_REPLY | NC_MSG_NOTIFICATION

text \<open>
  The handler reads and writes nothing but the flag \<open>done\<close> and the log, and the agent
  reads the flag only in the loop condition and writes it only at line 160, for a
  close-session request. Between two such places the moment at which a signal arrives
  changes nothing but the order of log lines, so the signals of a run are given per
  stretch:
  \<^item> \<open>startup_signals\<close>: from the \<open>sigaction\<close> calls to the first test of the loop
    condition;
  \<^item> \<open>signals\<close> of an iteration: from the test of the loop condition, through the wait
    in \<open>poll\<close> and the receive call, up to the point where \<open>process_message\<close> has dealt
    with the operation (line 160 for close-session), or up to the jump to \<open>cleanup\<close>;
  \<^item> \<open>signals_dispatch\<close> of an iteration that processes a request: from that point,
    through the sending of the reply, to the next test of the loop condition;
  \<^item> the cleanup signals: from the moment the loop is left to the return of \<open>main\<close>.

  The rest of an iteration's input is what the outside world answers: what \<open>poll\<close>
  returns (\<open>ret\<close>, \<open>errno\<close>, \<open>revents\<close>), what \<open>nc_session_recv_rpc\<close> returns and stores
  in \<open>rpc\<close>, the session status after that call, the session as the library holds it
  when the request is processed, and the answers of the backend and the system for
  that request.
\<close>

record loop_in =
  signals :: "int list"
  poll_ret :: int
  poll_errno :: int
  poll_revents :: "16 word"
  recv_rpc_type :: NC_MSG_TYPE
  recv_rpc :: "nc_rpc option"
  recv_status :: NC_SESSION_STATUS
  netconf_con :: nc_session
  con :: conn_t
  signals_dispatch :: "int list"

text \<open>The places from which the loop is left towards the label \<open>cleanup\<close>.\<close>

datatype loop_exit =
  Exit_done | Exit_poll_error | Exit_hangup | Exit_io_error | Exit_recv_failed

text \<open>
  One pass through the loop body ends in the next test of the loop condition
  (\<open>Continue\<close>), in a jump to \<open>cleanup\<close>, or in the end of the process by a signal.
\<close>

datatype step =
    Continue agent_state
  | Cleanup loop_exit agent_state
  | Stopped stop agent_state

text \<open>The branch \<open>rpc_type == NC_MSG_RPC\<close>: dispatch, then release the request.\<close>

definition handle_rpc :: "loop_in \<Rightarrow> agent_state \<Rightarrow> agent_state" where
  "handle_rpc i st =
     (case recv_rpc i of
        None \<Rightarrow>
          (case process_message (netconf_con i) (con i) None
                  (emit (Ev_log NC_VERB_VERBOSE ''Processing client message'') st) of
             (rc, st1) \<Rightarrow>
               if rc \<noteq> EXIT_SUCCESS
               then emit (Ev_log NC_VERB_WARNING ''Message processing failed'') st1
               else st1)
      | Some rpc \<Rightarrow>
          (case alloc (Obj_rpc rpc) st of
             (h, st0) \<Rightarrow>
               (case process_message (netconf_con i) (con i) (Some rpc)
                       (emit (Ev_log NC_VERB_VERBOSE ''Processing client message'') st0) of
                  (rc, st1) \<Rightarrow>
                    release h
                      (if rc \<noteq> EXIT_SUCCESS
                       then emit (Ev_log NC_VERB_WARNING ''Message processing failed'') st1
                       else st1))))"

definition loop_body :: "loop_in \<Rightarrow> agent_state \<Rightarrow> step" where
  "loop_body i st =
     (case deliver (signals i) st of
        Inl (how, st1) \<Rightarrow> Stopped how st1
      | Inr st1 \<Rightarrow>
          if poll_ret i < 0 \<and> poll_errno i \<noteq> EINTR
          then Cleanup Exit_poll_error (emit (Ev_log NC_VERB_ERROR ''poll failed.'') st1)
          else if poll_ret i = 0 then Continue st1
          else if poll_ret i > 0
          then (if poll_revents i AND POLLHUP \<noteq> 0
                then Cleanup Exit_hangup
                       (emit Ev_comm_close
                          (emit (Ev_log NC_VERB_VERBOSE ''Connection closed by client'') st1))
                else if poll_revents i AND POLLERR \<noteq> 0
                then Cleanup Exit_io_error (emit (Ev_log NC_VERB_ERROR ''I/O error.'') st1)
                else if poll_revents i AND POLLIN \<noteq> 0
                then (if recv_rpc_type i \<noteq> NC_MSG_RPC
                      then (case recv_rpc_type i of
                              NC_MSG_NONE \<Rightarrow> Continue st1
                            | NC_MSG_UNKNOWN \<Rightarrow>
                                if recv_status i \<noteq> NC_SESSION_STATUS_WORKING
                                then Cleanup Exit_recv_failed
                                       (emit (Ev_log NC_VERB_ERROR
                                          ''Failed to receive clinets message'') st1)
                                else Continue st1
                            | _ \<Rightarrow> Continue st1)
                      else (case deliver (signals_dispatch i) (handle_rpc i st1) of
                              Inl (how, st2) \<Rightarrow> Stopped how st2
                            | Inr st2 \<Rightarrow> Continue st2))
                else Continue st1)
          else Continue st1)"

text \<open>
  \<open>while (!done)\<close> over the iterations the outside world provides. When they are used up
  and the flag is still unset, the agent is waiting in \<open>poll\<close>: \<open>Continue\<close>.
\<close>

fun main_loop :: "loop_in list \<Rightarrow> agent_state \<Rightarrow> step" where
  "main_loop [] st = (if done_flag st \<noteq> 0 then Cleanup Exit_done st else Continue st)"
| "main_loop (i # ins) st =
     (if done_flag st \<noteq> 0 then Cleanup Exit_done st
      else (case loop_body i st of
              Continue st1 \<Rightarrow> main_loop ins st1
            | Cleanup reason st1 \<Rightarrow> Cleanup reason st1
            | Stopped how st1 \<Rightarrow> Stopped how st1))"





definition init_state :: agent_state where
  "init_state = \<lparr>done_flag = 0, next_handle = 0, heap = [], trace = []\<rparr>"



subsection \<open>Concrete inputs\<close>

text \<open>A backend and system where every call succeeds, and a session with notifications.\<close>

definition conn_ok :: conn_t where
  "conn_ok = \<lparr>comm_close_res = 0,
              comm_kill_session_res = (\<lambda>sid. Reply_Ok),
              comm_operation_res = (\<lambda>rpc. Reply_Data ''<data/>''),
              ncntf_subscription_check_res = (\<lambda>rpc. Reply_Ok),
              malloc_ok = True,
              pthread_create_res = 0\<rparr>"

definition session_ntf :: nc_session where
  "session_ntf = \<lparr>session_cpblts = [''urn:ietf:params:netconf:base:1.0'',
                     ''urn:ietf:params:netconf:capability:notification:1.0''],
                  session_notif_allowed = True\<rparr>"

definition rpc_get :: nc_rpc where
  "rpc_get = \<lparr>rpc_op = NC_OP_GET, rpc_op_content = Some (XmlNode (Some ''get'') [] [])\<rparr>"

definition rpc_close :: nc_rpc where
  "rpc_close = \<lparr>rpc_op = NC_OP_CLOSESESSION,
                rpc_op_content = Some (XmlNode (Some ''close-session'') [] [])\<rparr>"

definition rpc_subscribe :: nc_rpc where
  "rpc_subscribe = \<lparr>rpc_op = NC_OP_CREATESUBSCRIPTION,
                    rpc_op_content = Some (XmlNode (Some ''create-subscription'') [] [])\<rparr>"

definition rpc_kill :: nc_rpc where
  "rpc_kill = \<lparr>rpc_op = NC_OP_KILLSESSION,
               rpc_op_content =
                 Some (XmlNode (Some ''kill-session'')
                         [XmlNode (Some ''session-id'') [] ''4''] ''4'')\<rparr>"

text \<open>
  The same session while a subscription is active, and a session without the
  notification capability on which a subscription is not allowed either.
\<close>

definition session_busy :: nc_session where
  "session_busy = session_ntf\<lparr>session_notif_allowed := False\<rparr>"

definition session_plain :: nc_session where
  "session_plain = \<lparr>session_cpblts = [''urn:ietf:params:netconf:base:1.0''],
                    session_notif_allowed = False\<rparr>"

text \<open>\<open>pthread_create\<close> fails with EAGAIN (11).\<close>

definition conn_spawn_fails :: conn_t where
  "conn_spawn_fails = conn_ok\<lparr>pthread_create_res := 11\<rparr>"

text \<open>A backend that knows session 4 only.\<close>

definition conn_kill :: conn_t where
  "conn_kill = conn_ok\<lparr>comm_kill_session_res :=
     (\<lambda>sid. if sid = ''4'' then Reply_Ok else Reply_Error (nc_err_new NC_ERR_INVALID_VALUE))\<rparr>"

definition rpc_kill_no_id :: nc_rpc where
  "rpc_kill_no_id = \<lparr>rpc_op = NC_OP_KILLSESSION,
                     rpc_op_content = Some (XmlNode (Some ''kill-session'') [] [])\<rparr>"

definition rpc_kill_corrupt :: nc_rpc where
  "rpc_kill_corrupt = \<lparr>rpc_op = NC_OP_KILLSESSION, rpc_op_content = None\<rparr>"

text \<open>
  A kill-session request in which the \<open>session-id\<close> element is there, but a comment
  comes first.
\<close>

definition rpc_kill_late_id :: nc_rpc where
  "rpc_kill_late_id = \<lparr>rpc_op = NC_OP_KILLSESSION,
                       rpc_op_content =
                         Some (XmlNode (Some ''kill-session'')
                                 [XmlNode (Some ''comment'') [] ''target'',
                                  XmlNode (Some ''session-id'') [] ''4''] ''4'')\<rparr>"

text \<open>
  Iterations of the loop: data is ready and the receive call reports a malformed frame
  on a working session; \<open>poll\<close> is interrupted by SIGTERM; the client hangs up; \<open>poll\<close>
  fails; the descriptor reports an error; a close-session request arrives, without a
  signal and with one SIGTERM while the reply is sent.
\<close>

definition in_malformed :: loop_in where
  "in_malformed = \<lparr>signals = [], poll_ret = 1, poll_errno = 0, poll_revents = POLLIN,
                   recv_rpc_type = NC_MSG_UNKNOWN, recv_rpc = None,
                   recv_status = NC_SESSION_STATUS_WORKING,
                   netconf_con = session_ntf, con = conn_ok, signals_dispatch = []\<rparr>"

definition in_eintr :: loop_in where
  "in_eintr = in_malformed\<lparr>signals := [SIGTERM], poll_ret := - 1, poll_errno := EINTR\<rparr>"







subsection \<open>Classes of inputs\<close>

text \<open>
  An iteration that reaches \<open>nc_session_recv_rpc\<close> and gets no request from it: no signal
  during the wait, \<open>poll\<close> reports an event that is neither a hang-up nor an error but
  readable data, and the receive call returns something else than \<open>NC_MSG_RPC\<close>.
\<close>

definition recv_no_request :: "loop_in \<Rightarrow> bool" where
  "recv_no_request i \<longleftrightarrow>
     signals i = [] \<and> 0 < poll_ret i
     \<and> poll_revents i AND POLLHUP = 0 \<and> poll_revents i AND POLLERR = 0
     \<and> poll_revents i AND POLLIN \<noteq> 0
     \<and> recv_rpc_type i \<noteq> NC_MSG_RPC"






section \<open>Properties\<close>

lemmas c_consts = EXIT_SUCCESS_def EXIT_FAILURE_def EINTR_def
lemmas sig_consts = SIGHUP_def SIGINT_def SIGQUIT_def SIGABRT_def SIGKILL_def SIGTERM_def
  SIGCHLD_def SIGCONT_def SIGSTOP_def SIGTSTP_def SIGTTIN_def SIGTTOU_def SIGURG_def
  SIGWINCH_def
lemmas poll_consts = POLLIN_def POLLERR_def POLLHUP_def
lemmas state_ops = emit_def alloc_def release_def new_reply_def nc_reply_ok_def
  nc_reply_error_def send_reply_def

lemmas example_inputs = conn_ok_def session_ntf_def rpc_get_def rpc_close_def
  rpc_subscribe_def rpc_kill_def init_state_def session_busy_def session_plain_def
  conn_spawn_fails_def conn_kill_def rpc_kill_no_id_def rpc_kill_corrupt_def
  rpc_kill_late_id_def
lemmas library_calls = nc_rpc_get_op_def ncxml_rpc_get_op_content_def nc_cpblts_enabled_def
  nc_session_notif_allowed_def nc_err_set_def nc_err_new_def nc_err_get_def xmlStrEqual_def
  xmlNodeGetContent_def

subsection \<open>Traces\<close>

lemma sends_append: "sends (xs @ ys) = sends xs @ sends ys"
  by (induction xs rule: sends.induct) simp_all

subsection \<open>The switch of \<open>process_message\<close> sends nothing itself\<close>

lemma quiet_closesession:
  "\<exists>pre. trace (snd (op_closesession conn st)) = trace st @ pre \<and> sends pre = []"
  by (simp add: op_closesession_def state_ops)

lemma quiet_killsession:
  "\<exists>pre. trace (snd (op_killsession conn rpc st)) = trace st @ pre \<and> sends pre = []"
  by (simp add: op_killsession_def state_ops split: option.split list.split)

lemma quiet_createsubscription:
  "\<exists>pre. trace (snd (op_createsubscription session conn rpc st)) = trace st @ pre
         \<and> sends pre = []"
  by (simp add: op_createsubscription_def state_ops Let_def)

lemma quiet_other:
  "\<exists>pre. trace (snd (op_other conn rpc st)) = trace st @ pre \<and> sends pre = []"
  by (simp add: op_other_def state_ops)

lemma send_reply_effect:
  "trace (snd (send_reply (h, r) st)) = trace st @ [Ev_send_reply h r, Ev_free h]"
  "map_of (heap (snd (send_reply (h, r) st))) h = None"
  "fst (send_reply (h, r) st) = EXIT_SUCCESS"
  by (simp_all add: send_reply_def release_def emit_def delete_conv)

subsection \<open>Dispatch\<close>

text \<open>
  C1. For every non-null request, whatever its operation kind and whatever the backend
  and the system answer, \<open>process_message\<close> calls \<open>nc_session_send_reply\<close> exactly once:
  the events it adds to the trace are some events without a send, then the send of one
  reply, then the release of that same reply, and nothing after it. The reply is no
  longer on the heap when the function returns.
\<close>

theorem process_message_sends_one_reply:
  "\<exists>h r pre.
     trace (snd (process_message session conn (Some rpc) st))
       = trace st @ pre @ [Ev_send_reply h r, Ev_free h]
     \<and> sends pre = []
     \<and> sends (trace (snd (process_message session conn (Some rpc) st)))
         = sends (trace st) @ [(h, r)]
     \<and> map_of (heap (snd (process_message session conn (Some rpc) st))) h = None"
proof -
  define sw where
    "sw = (case nc_rpc_get_op rpc of
             NC_OP_CLOSESESSION \<Rightarrow> op_closesession conn st
           | NC_OP_KILLSESSION \<Rightarrow> op_killsession conn rpc st
           | NC_OP_CREATESUBSCRIPTION \<Rightarrow> op_createsubscription session conn rpc st
           | _ \<Rightarrow> op_other conn rpc st)"
  have "\<exists>pre. trace (snd sw) = trace st @ pre \<and> sends pre = []"
    unfolding sw_def
    by (cases "nc_rpc_get_op rpc")
       (simp_all only: NC_OP.case quiet_closesession quiet_killsession
          quiet_createsubscription quiet_other)
  then obtain pre where pre: "trace (snd sw) = trace st @ pre" "sends pre = []"
    by blast
  obtain h r st1 where sw: "sw = ((h, r), st1)"
    by (metis surj_pair)
  have pm: "process_message session conn (Some rpc) st = send_reply (h, r) st1"
    using sw by (simp add: process_message_def sw_def [symmetric])
  show ?thesis
    using pre sw by (auto simp: pm send_reply_effect sends_append)
qed

text \<open>
  C9. Called with a NULL request, \<open>process_message\<close> returns \<open>EXIT_FAILURE\<close> and only logs
  an error: no reply is sent, the heap and the shutdown flag are as before. For any
  argument, the return value is \<open>EXIT_FAILURE\<close> exactly when the request is NULL.
\<close>

theorem process_message_null_request:
  "process_message session conn None st
     = (EXIT_FAILURE, st\<lparr>trace := trace st @ [Ev_log NC_VERB_ERROR ''Invalid RPC to process.'']\<rparr>)
   \<and> sends (trace (snd (process_message session conn None st))) = sends (trace st)
   \<and> done_flag (snd (process_message session conn None st)) = done_flag st
   \<and> heap (snd (process_message session conn None st)) = heap st
   \<and> (fst (process_message session conn rpc_arg st) = EXIT_FAILURE \<longleftrightarrow> rpc_arg = None)"
  by (cases rpc_arg)
     (simp_all add: process_message_def send_reply_def emit_def sends_append c_consts
        split: prod.splits)

theorem process_message_null_request_witness:
  "fst (process_message session_ntf conn_ok None init_state) = EXIT_FAILURE
   \<and> sends (trace (snd (process_message session_ntf conn_ok None init_state))) = []
   \<and> fst (process_message session_ntf conn_ok (Some rpc_get) init_state) \<noteq> EXIT_FAILURE"
  using process_message_null_request [of session_ntf conn_ok init_state None]
    process_message_null_request [of session_ntf conn_ok init_state "Some rpc_get"]
  by (simp add: init_state_def)

text \<open>
  C5. For a close-session request the agent calls \<open>comm_close\<close>, sends one reply and
  releases it, and the shutdown flag is 1 when \<open>process_message\<close> returns, whatever
  \<open>comm_close\<close> returned. The reply is success when \<open>comm_close\<close> returned
  \<open>EXIT_SUCCESS\<close>, and an error of category operation-failed otherwise.
\<close>

theorem closesession_sets_done:
  "nc_rpc_get_op rpc = NC_OP_CLOSESESSION \<Longrightarrow>
     done_flag (snd (process_message session conn (Some rpc) st)) = 1
     \<and> trace (snd (process_message session conn (Some rpc) st))
         = trace st @ [Ev_comm_close,
             Ev_send_reply (next_handle st)
               (if comm_close_res conn = EXIT_SUCCESS then Reply_Ok
                else Reply_Error (nc_err_new NC_ERR_OP_FAILED)),
             Ev_free (next_handle st)]"
  by (simp add: process_message_def op_closesession_def state_ops)

theorem closesession_sets_done_witness:
  "nc_rpc_get_op rpc_close = NC_OP_CLOSESESSION
   \<and> done_flag (snd (process_message session_ntf conn_ok (Some rpc_close) init_state)) = 1
   \<and> done_flag (snd (process_message session_ntf (conn_ok\<lparr>comm_close_res := 1\<rparr>)
                        (Some rpc_close) init_state)) = 1
   \<and> sends (trace (snd (process_message session_ntf conn_ok (Some rpc_close) init_state)))
       = [(0, Reply_Ok)]
   \<and> sends (trace (snd (process_message session_ntf (conn_ok\<lparr>comm_close_res := 1\<rparr>)
                           (Some rpc_close) init_state)))
       = [(0, Reply_Error \<lparr>err_category = NC_ERR_OP_FAILED, err_params = []\<rparr>)]"
  using closesession_sets_done [of rpc_close session_ntf conn_ok init_state]
    closesession_sets_done [of rpc_close session_ntf "conn_ok\<lparr>comm_close_res := 1\<rparr>" init_state]
  by (simp add: example_inputs nc_rpc_get_op_def c_consts nc_err_new_def)

text \<open>
  C4, as the claim states it, fails when the \<open>session-id\<close> element is there but is not
  the first child. In the request below the operation element is \<open>kill-session\<close> and
  has a \<open>session-id\<close> child with content 4, after a comment. The identifier is not
  extracted and the backend, which would answer OK for session 4, is not asked: the one
  reply sent is the missing-element error.
\<close>

theorem killsession_late_session_id_counterexample:
  "ncxml_rpc_get_op_content rpc_kill_late_id
     = Some (XmlNode (Some ''kill-session'')
               [XmlNode (Some ''comment'') [] ''target'',
                XmlNode (Some ''session-id'') [] ''4''] ''4'')
   \<and> sends (trace (snd
         (process_message session_ntf conn_kill (Some rpc_kill_late_id) init_state)))
       = [(0, Reply_Error \<lparr>err_category = NC_ERR_MISSING_ELEM,
                err_params = [(NC_ERR_PARAM_INFO_BADELEM, ''session-id'')]\<rparr>)]
   \<and> comm_kill_session_res conn_kill ''4'' = Reply_Ok
   \<and> Ev_comm_kill_session ''4''
       \<notin> set (trace (snd
             (process_message session_ntf conn_kill (Some rpc_kill_late_id) init_state)))"
  by (simp add: process_message_def op_killsession_def state_ops example_inputs
      library_calls)

text \<open>
  C4, amended. For a kill-session request:
  \<^item> when there is no operation element, or its name is not \<open>kill-session\<close>, the reply
    sent is an error of category operation-failed;
  \<^item> when the operation element is \<open>kill-session\<close> and it has no child, or its first
    child is not named \<open>session-id\<close>, the reply sent is an error of category
    missing-element whose bad-element parameter is \<open>session-id\<close>;
  \<^item> otherwise the content of that first child is passed to \<open>comm_kill_session\<close>, and
    the reply sent is the one the backend returned.
\<close>

theorem killsession_replies:
  assumes "nc_rpc_get_op rpc = NC_OP_KILLSESSION"
  shows
  "((ncxml_rpc_get_op_content rpc = None
      \<or> (\<exists>op. ncxml_rpc_get_op_content rpc = Some op \<and> node_name op \<noteq> Some ''kill-session''))
     \<longrightarrow> map snd (sends (trace (snd (process_message session conn (Some rpc) st))))
           = map snd (sends (trace st)) @ [Reply_Error (nc_err_new NC_ERR_OP_FAILED)])
   \<and> (\<forall>op. ncxml_rpc_get_op_content rpc = Some op \<and> node_name op = Some ''kill-session''
          \<and> (node_children op = [] \<or> node_name (hd (node_children op)) \<noteq> Some ''session-id'')
     \<longrightarrow> (\<exists>err. map snd (sends (trace (snd (process_message session conn (Some rpc) st))))
                 = map snd (sends (trace st)) @ [Reply_Error err]
              \<and> err_category err = NC_ERR_MISSING_ELEM
              \<and> nc_err_get err NC_ERR_PARAM_INFO_BADELEM = Some ''session-id''))
   \<and> (\<forall>op child siblings. ncxml_rpc_get_op_content rpc = Some op
          \<and> node_name op = Some ''kill-session''
          \<and> node_children op = child # siblings \<and> node_name child = Some ''session-id''
     \<longrightarrow> map snd (sends (trace (snd (process_message session conn (Some rpc) st))))
           = map snd (sends (trace st)) @ [comm_kill_session_res conn (xmlNodeGetContent child)]
         \<and> Ev_comm_kill_session (xmlNodeGetContent child)
             \<in> set (trace (snd (process_message session conn (Some rpc) st))))"
  using assms
  by (auto simp: process_message_def op_killsession_def state_ops sends_append xmlStrEqual_def
      nc_err_set_def nc_err_new_def nc_err_get_def split: list.splits)

theorem killsession_replies_witness:
  "nc_rpc_get_op rpc_kill = NC_OP_KILLSESSION
   \<and> nc_rpc_get_op rpc_kill_no_id = NC_OP_KILLSESSION
   \<and> nc_rpc_get_op rpc_kill_corrupt = NC_OP_KILLSESSION
   \<and> map snd (sends (trace (snd
        (process_message session_ntf conn_kill (Some rpc_kill_corrupt) init_state))))
       = [Reply_Error \<lparr>err_category = NC_ERR_OP_FAILED, err_params = []\<rparr>]
   \<and> (\<exists>err. map snd (sends (trace (snd
        (process_message session_ntf conn_kill (Some rpc_kill_no_id) init_state))))
          = [Reply_Error err]
        \<and> err_category err = NC_ERR_MISSING_ELEM
        \<and> nc_err_get err NC_ERR_PARAM_INFO_BADELEM = Some ''session-id'')
   \<and> map snd (sends (trace (snd
        (process_message session_ntf conn_kill (Some rpc_kill) init_state))))
       = [Reply_Ok]"
  using killsession_replies [of rpc_kill session_ntf conn_kill init_state]
    killsession_replies [of rpc_kill_no_id session_ntf conn_kill init_state]
    killsession_replies [of rpc_kill_corrupt session_ntf conn_kill init_state]
  by (simp add: example_inputs library_calls)

text \<open>
  C2, as the claim states it, fails on the text of the message. On a session that has
  the notification capability but does not allow a new subscription, the one reply sent
  is operation-failed with error-type \<open>protocol\<close>, and its message is not "a subscription
  is already active on this session".
\<close>

theorem createsubscription_message_counterexample:
  "sends (trace (snd (process_message session_busy conn_ok (Some rpc_subscribe) init_state)))
     = [(0, Reply_Error \<lparr>err_category = NC_ERR_OP_FAILED,
              err_params = [(NC_ERR_PARAM_TYPE, ''protocol''),
                (NC_ERR_PARAM_MSG,
                 ''Another notification subscription is currently active on this session.'')]\<rparr>)]
   \<and> nc_err_get \<lparr>err_category = NC_ERR_OP_FAILED,
              err_params = [(NC_ERR_PARAM_TYPE, ''protocol''),
                (NC_ERR_PARAM_MSG,
                 ''Another notification subscription is currently active on this session.'')]\<rparr>
         NC_ERR_PARAM_MSG
       \<noteq> Some ''a subscription is already active on this session''"
  by (simp add: process_message_def op_createsubscription_def state_ops example_inputs
      library_calls)

text \<open>
  C2, amended. For a create-subscription request: when the session's capabilities lack
  \<open>urn:ietf:params:netconf:capability:notification:1.0\<close>, the reply sent is an error of
  category operation-not-supported, whether or not a subscription would be allowed (the
  capability is checked first). When the capability is there and the session does not
  allow a new subscription, the reply sent is an error of category operation-failed
  with error-type \<open>protocol\<close> and the message "Another notification subscription is
  currently active on this session.".
\<close>

theorem createsubscription_rejections:
  assumes "nc_rpc_get_op rpc = NC_OP_CREATESUBSCRIPTION"
  shows
  "(nc_cpblts_enabled session ''urn:ietf:params:netconf:capability:notification:1.0'' = 0
     \<longrightarrow> map snd (sends (trace (snd (process_message session conn (Some rpc) st))))
           = map snd (sends (trace st)) @ [Reply_Error (nc_err_new NC_ERR_OP_NOT_SUPPORTED)])
   \<and> (nc_cpblts_enabled session ''urn:ietf:params:netconf:capability:notification:1.0'' \<noteq> 0
       \<and> nc_session_notif_allowed session = 0
     \<longrightarrow> (\<exists>err. map snd (sends (trace (snd (process_message session conn (Some rpc) st))))
                 = map snd (sends (trace st)) @ [Reply_Error err]
              \<and> err_category err = NC_ERR_OP_FAILED
              \<and> nc_err_get err NC_ERR_PARAM_TYPE = Some ''protocol''
              \<and> nc_err_get err NC_ERR_PARAM_MSG
                  = Some ''Another notification subscription is currently active on this session.''))"
  using assms
  by (simp add: process_message_def op_createsubscription_def state_ops sends_append
      nc_err_set_def nc_err_new_def nc_err_get_def)

theorem createsubscription_rejections_witness:
  "nc_rpc_get_op rpc_subscribe = NC_OP_CREATESUBSCRIPTION
   \<and> nc_cpblts_enabled session_plain ''urn:ietf:params:netconf:capability:notification:1.0'' = 0
   \<and> nc_session_notif_allowed session_plain = 0
   \<and> map snd (sends (trace (snd
        (process_message session_plain conn_ok (Some rpc_subscribe) init_state))))
       = [Reply_Error \<lparr>err_category = NC_ERR_OP_NOT_SUPPORTED, err_params = []\<rparr>]
   \<and> nc_cpblts_enabled session_busy ''urn:ietf:params:netconf:capability:notification:1.0'' \<noteq> 0
   \<and> nc_session_notif_allowed session_busy = 0
   \<and> (\<exists>err. map snd (sends (trace (snd
        (process_message session_busy conn_ok (Some rpc_subscribe) init_state))))
          = [Reply_Error err]
        \<and> err_category err = NC_ERR_OP_FAILED
        \<and> nc_err_get err NC_ERR_PARAM_TYPE = Some ''protocol''
        \<and> nc_err_get err NC_ERR_PARAM_MSG
            = Some ''Another notification subscription is currently active on this session.'')"
  using createsubscription_rejections [of rpc_subscribe session_plain conn_ok init_state]
    createsubscription_rejections [of rpc_subscribe session_busy conn_ok init_state]
  by (simp add: example_inputs nc_rpc_get_op_def nc_cpblts_enabled_def
      nc_session_notif_allowed_def nc_err_new_def)

text \<open>
  C3, at the input where the code departs from the claim. The session has the
  notification capability and allows a subscription, the subscription check answers
  OK, \<open>malloc\<close> succeeds and \<open>pthread_create\<close> returns 11. The agent releases the OK reply
  (handle 0) and sends an operation-failed reply (handle 3), but when it returns the
  thread configuration (handle 1) and the duplicated request (handle 2) are still on
  the heap, and no thread exists that would release them. On the path where the thread
  starts, \<open>notification_thread\<close> releases both.
\<close>

theorem createsubscription_spawn_failure_leaks:
  "process_message session_ntf conn_spawn_fails (Some rpc_subscribe) init_state
     = (EXIT_SUCCESS,
        \<lparr>done_flag = 0, next_handle = 4,
         heap = [(1, Obj_ntf_thread_config (Some 2)), (2, Obj_rpc rpc_subscribe)],
         trace = [Ev_free 0,
                  Ev_send_reply 3 (Reply_Error \<lparr>err_category = NC_ERR_OP_FAILED,
                     err_params = [(NC_ERR_PARAM_MSG,
                        ''Creating thread for sending Notifications failed.'')]\<rparr>),
                  Ev_free 3]\<rparr>)
   \<and> trace (snd (process_message session_ntf conn_ok (Some rpc_subscribe) init_state))
       = [Ev_pthread_create 1, Ev_pthread_detach, Ev_send_reply 0 Reply_Ok, Ev_free 0]
   \<and> heap (notification_thread 1
        (snd (process_message session_ntf conn_ok (Some rpc_subscribe) init_state))) = []"
  by (simp add: process_message_def op_createsubscription_def state_ops example_inputs
      library_calls Let_def notification_thread_def)

text \<open>
  The two failures of the set-up are both reported as operation-failed: when \<open>malloc\<close>
  fails, and when \<open>pthread_create\<close> fails. On the first of these paths the OK reply of
  the subscription check is replaced without being released.
\<close>

lemma createsubscription_setup_failures:
  assumes "nc_rpc_get_op rpc = NC_OP_CREATESUBSCRIPTION"
    and "nc_cpblts_enabled session ''urn:ietf:params:netconf:capability:notification:1.0'' \<noteq> 0"
    and "nc_session_notif_allowed session \<noteq> 0"
    and "nc_reply_get_type (ncntf_subscription_check_res conn rpc) = NC_REPLY_OK"
    and "\<not> malloc_ok conn \<or> pthread_create_res conn \<noteq> 0"
  shows "\<exists>err. map snd (sends (trace (snd (process_message session conn (Some rpc) st))))
                 = map snd (sends (trace st)) @ [Reply_Error err]
              \<and> err_category err = NC_ERR_OP_FAILED"
  using assms
  by (auto simp: process_message_def op_createsubscription_def state_ops sends_append
      nc_err_set_def nc_err_new_def Let_def)

lemma createsubscription_malloc_failure_heap:
  "heap (snd (process_message session_ntf (conn_ok\<lparr>malloc_ok := False\<rparr>)
                (Some rpc_subscribe) init_state))
     = [(0, Obj_reply Reply_Ok)]"
  by (simp add: process_message_def op_createsubscription_def state_ops example_inputs
      library_calls)

subsection \<open>Shutdown controller\<close>



subsection \<open>The session loop\<close>

lemma body_no_request:
  "recv_no_request i \<Longrightarrow>
   recv_rpc_type i \<noteq> NC_MSG_UNKNOWN \<or> recv_status i = NC_SESSION_STATUS_WORKING \<Longrightarrow>
   loop_body i st = Continue st"
  by (auto simp: recv_no_request_def loop_body_def split: NC_MSG_TYPE.splits)

lemma body_degraded:
  "recv_no_request i \<Longrightarrow> recv_rpc_type i = NC_MSG_UNKNOWN \<Longrightarrow>
   recv_status i \<noteq> NC_SESSION_STATUS_WORKING \<Longrightarrow>
   loop_body i st = Cleanup Exit_recv_failed
     (emit (Ev_log NC_VERB_ERROR ''Failed to receive clinets message'') st)"
  by (auto simp: recv_no_request_def loop_body_def split: NC_MSG_TYPE.splits)

lemma loop_no_request:
  "\<forall>i \<in> set ins. recv_no_request i
       \<and> (recv_rpc_type i \<noteq> NC_MSG_UNKNOWN \<or> recv_status i = NC_SESSION_STATUS_WORKING) \<Longrightarrow>
   done_flag st = 0 \<Longrightarrow> main_loop ins st = Continue st"
  by (induction ins) (simp_all add: body_no_request)

text \<open>
  C7. Take an iteration in which the receive call is reached and returns no request.
  \<^item> If it returned anything but \<open>NC_MSG_UNKNOWN\<close>, or the session is still working, the
    body does nothing: the state, and so the list of replies sent, is as before, and
    the loop goes on to its next test.
  \<^item> If the body does leave the loop, the session status is not working (and the
    receive call returned \<open>NC_MSG_UNKNOWN\<close>): it jumps to \<open>cleanup\<close> after logging.
  \<^item> So for any list of iterations that are all malformed-frame receives on a working
    session, started with the flag unset, the loop is still running at the end of the
    list, in the state it started in: no reply was sent.
\<close>

theorem recv_without_request_continues:
  "(recv_no_request i
      \<and> (recv_rpc_type i \<noteq> NC_MSG_UNKNOWN \<or> recv_status i = NC_SESSION_STATUS_WORKING)
      \<longrightarrow> loop_body i st = Continue st)
   \<and> (recv_no_request i \<and> loop_body i st \<noteq> Continue st
      \<longrightarrow> recv_status i \<noteq> NC_SESSION_STATUS_WORKING
          \<and> recv_rpc_type i = NC_MSG_UNKNOWN
          \<and> loop_body i st = Cleanup Exit_recv_failed
              (emit (Ev_log NC_VERB_ERROR ''Failed to receive clinets message'') st))
   \<and> ((\<forall>i \<in> set ins. recv_no_request i \<and> recv_rpc_type i = NC_MSG_UNKNOWN
                       \<and> recv_status i = NC_SESSION_STATUS_WORKING)
       \<and> done_flag st = 0
      \<longrightarrow> main_loop ins st = Continue st)"
proof (intro conjI impI)
  assume "recv_no_request i
      \<and> (recv_rpc_type i \<noteq> NC_MSG_UNKNOWN \<or> recv_status i = NC_SESSION_STATUS_WORKING)"
  then show "loop_body i st = Continue st"
    by (simp add: body_no_request)
next
  assume a: "recv_no_request i \<and> loop_body i st \<noteq> Continue st"
  then have u: "recv_rpc_type i = NC_MSG_UNKNOWN"
      "recv_status i \<noteq> NC_SESSION_STATUS_WORKING"
    using body_no_request [of i st] by auto
  then show "recv_status i \<noteq> NC_SESSION_STATUS_WORKING" and "recv_rpc_type i = NC_MSG_UNKNOWN"
    by simp_all
  from a u show "loop_body i st = Cleanup Exit_recv_failed
              (emit (Ev_log NC_VERB_ERROR ''Failed to receive clinets message'') st)"
    by (simp add: body_degraded)
next
  assume "(\<forall>i \<in> set ins. recv_no_request i \<and> recv_rpc_type i = NC_MSG_UNKNOWN
                       \<and> recv_status i = NC_SESSION_STATUS_WORKING)
       \<and> done_flag st = 0"
  then show "main_loop ins st = Continue st"
    by (simp add: loop_no_request)
qed

theorem recv_without_request_continues_witness:
  "recv_no_request in_malformed \<and> recv_rpc_type in_malformed = NC_MSG_UNKNOWN
   \<and> recv_status in_malformed = NC_SESSION_STATUS_WORKING
   \<and> done_flag init_state = 0
   \<and> loop_body in_malformed init_state = Continue init_state
   \<and> main_loop [in_malformed, in_malformed, in_malformed] init_state = Continue init_state
   \<and> recv_no_request (in_malformed\<lparr>recv_status := NC_SESSION_STATUS_CLOSED\<rparr>)
   \<and> loop_body (in_malformed\<lparr>recv_status := NC_SESSION_STATUS_CLOSED\<rparr>) init_state
       = Cleanup Exit_recv_failed
           (emit (Ev_log NC_VERB_ERROR ''Failed to receive clinets message'') init_state)"
  using recv_without_request_continues
      [of in_malformed init_state "[in_malformed, in_malformed, in_malformed]"]
    recv_without_request_continues
      [of "in_malformed\<lparr>recv_status := NC_SESSION_STATUS_CLOSED\<rparr>" init_state "[]"]
  by (simp add: recv_no_request_def in_malformed_def init_state_def poll_consts
      loop_body_def emit_def)

text \<open>
  C10. When \<open>poll\<close> returns a negative value with \<open>errno = EINTR\<close>:
  \<^item> the body does nothing of its own: what happens in the iteration is what the signals
    of the wait did, and unless one of them ended the process the loop goes on to its
    next test;
  \<^item> with no signal and the flag unset, the loop continues with the remaining
    iterations in the same state;
  \<^item> with one signal for which the handler is installed (SIGINT, SIGTERM, SIGQUIT,
    SIGABRT) delivered during the wait and the flag unset before, the loop ends at its
    next test, because the flag is set, whatever iterations would follow: it is not left
    through the poll-error branch, and "poll failed." is not logged.
  SIGKILL, which the handler names, never reaches it: it kills the process.
\<close>

theorem poll_eintr_rechecks_done:
  "(poll_ret i < 0 \<and> poll_errno i = EINTR
      \<longrightarrow> loop_body i st
           = (case deliver (signals i) st of
                Inl (how, st1) \<Rightarrow> Stopped how st1
              | Inr st1 \<Rightarrow> Continue st1))
   \<and> (poll_ret i < 0 \<and> poll_errno i = EINTR \<and> signals i = [] \<and> done_flag st = 0
      \<longrightarrow> main_loop (i # ins) st = main_loop ins st)
   \<and> (poll_ret i < 0 \<and> poll_errno i = EINTR \<and> done_flag st = 0 \<and> signals i = [sig]
       \<and> sig \<in> {SIGINT, SIGTERM, SIGQUIT, SIGABRT}
      \<longrightarrow> main_loop (i # ins) st
           = Cleanup Exit_done
               (st\<lparr>done_flag := 1,
                   trace := trace st @ [Ev_log NC_VERB_VERBOSE ''Signal received.'',
                                        Ev_stderr_signal sig]\<rparr>))
   \<and> (done_flag st = 0 \<and> signals i = [SIGKILL]
      \<longrightarrow> main_loop (i # ins) st = Stopped (Stop_killed SIGKILL) st)"
proof (intro conjI impI)
  assume "poll_ret i < 0 \<and> poll_errno i = EINTR"
  then show "loop_body i st
           = (case deliver (signals i) st of
                Inl (how, st1) \<Rightarrow> Stopped how st1
              | Inr st1 \<Rightarrow> Continue st1)"
    by (simp add: loop_body_def split: sum.splits prod.splits)
next
  assume "poll_ret i < 0 \<and> poll_errno i = EINTR \<and> signals i = [] \<and> done_flag st = 0"
  then show "main_loop (i # ins) st = main_loop ins st"
    by (simp add: loop_body_def)
next
  assume a: "poll_ret i < 0 \<and> poll_errno i = EINTR \<and> done_flag st = 0 \<and> signals i = [sig]
       \<and> sig \<in> {SIGINT, SIGTERM, SIGQUIT, SIGABRT}"
  then have "loop_body i st
      = Continue (st\<lparr>done_flag := 1,
                    trace := trace st @ [Ev_log NC_VERB_VERBOSE ''Signal received.'',
                                         Ev_stderr_signal sig]\<rparr>)"
    by (auto simp: loop_body_def handler_installed_def signal_handler_def emit_def Let_def)
  with a show "main_loop (i # ins) st
           = Cleanup Exit_done
               (st\<lparr>done_flag := 1,
                   trace := trace st @ [Ev_log NC_VERB_VERBOSE ''Signal received.'',
                                        Ev_stderr_signal sig]\<rparr>)"
    by (cases ins) simp_all
next
  assume "done_flag st = 0 \<and> signals i = [SIGKILL]"
  then show "main_loop (i # ins) st = Stopped (Stop_killed SIGKILL) st"
    by (simp add: loop_body_def handler_installed_def default_disposition_def sig_consts)
qed

theorem poll_eintr_rechecks_done_witness:
  "poll_ret in_eintr < 0 \<and> poll_errno in_eintr = EINTR \<and> done_flag init_state = 0
   \<and> signals in_eintr = [SIGTERM] \<and> SIGTERM \<in> {SIGINT, SIGTERM, SIGQUIT, SIGABRT}
   \<and> main_loop [in_eintr, in_malformed] init_state
       = Cleanup Exit_done
           \<lparr>done_flag = 1, next_handle = 0, heap = [],
            trace = [Ev_log NC_VERB_VERBOSE ''Signal received.'', Ev_stderr_signal SIGTERM]\<rparr>
   \<and> main_loop [in_eintr\<lparr>signals := []\<rparr>, in_malformed] init_state = Continue init_state
   \<and> main_loop [in_eintr\<lparr>signals := [SIGKILL]\<rparr>, in_malformed] init_state
       = Stopped (Stop_killed SIGKILL) init_state"
  using poll_eintr_rechecks_done [of in_eintr init_state "[in_malformed]" SIGTERM]
    poll_eintr_rechecks_done [of "in_eintr\<lparr>signals := []\<rparr>" init_state "[in_malformed]" SIGTERM]
    poll_eintr_rechecks_done [of "in_eintr\<lparr>signals := [SIGKILL]\<rparr>" init_state
      "[in_malformed]" SIGTERM]
  by (simp add: in_eintr_def in_malformed_def init_state_def loop_body_def poll_consts
      handler_installed_def default_disposition_def signal_handler_def emit_def Let_def
      c_consts sig_consts)

subsection \<open>Exit status\<close>
























end
